theory Spec2Isabelle
  imports Main "HOL-Library.Word"
begin

section \<open>The PXE plugin of the DHCPv4 server (plugins/pxe/pxe.go)\<close>

text \<open>
  The plugin has two functions. \<open>setup4\<close> builds two option templates and stores pointers
  to them in the package variables \<open>opt60\<close> and \<open>opt43\<close>. \<open>pxeHandler4\<close> receives two
  pointers to DHCPv4 messages, the request and the response, reads the request and writes
  up to three options into the response through its pointer.

  Since the handler mutates a message behind a pointer, messages live in an explicit store
  and the handler passes the store (with the two package variables) along. A pointer is an
  address; an address at which the store holds nothing plays the part of Go's \<open>nil\<close>, and
  dereferencing it is the run-time panic of Go, which the model returns as a value.

  The option set of a message is a Go map, which is a reference too: two messages, or one
  message passed twice, may hold the same map object, and a message may hold the \<open>nil\<close>
  map, which reads as empty and panics when an entry is assigned. Map objects therefore
  live in a store of their own, and a message holds the address of its map or nothing.

  Payloads are byte lists, values of the model: the plugin stores payloads under option
  codes and never writes into the bytes of one. Logging is not modelled.
\<close>

subsection \<open>Bytes and strings\<close>

type_synonym byte = "8 word"

text \<open>
  A Go string is a sequence of bytes; \<open>len\<close> counts bytes and the conversion
  \<open>string(v)\<close> of a byte slice keeps every byte. Strings and byte slices are therefore both
  byte lists, and a string literal of the source is the list of its character codes.
\<close>

definition bytes :: "string \<Rightarrow> byte list" where
  "bytes s = map (\<lambda>c. of_nat (of_char c)) s"

text \<open>
  \<open>strings.HasPrefix(s, prefix)\<close> of Go's standard library:
  \<^verbatim>\<open>len(s) >= len(prefix) && s[:len(prefix)] == prefix\<close>.
\<close>

definition HasPrefix :: "byte list \<Rightarrow> byte list \<Rightarrow> bool" where
  "HasPrefix s pre = (length pre \<le> length s \<and> take (length pre) s = pre)"

subsection \<open>The state: package variables, messages and option maps\<close>

text \<open>
  Modelled from the spec: the message abstraction of the DHCP library that the plugin
  imports (package dhcpv4, not part of this repository). The spec describes it as an
  option set that maps a code (0 to 255) to a raw byte payload, with update in place
  (setting a code that exists replaces its payload), read by \<open>GetOption(code)\<close>, which gives
  the bytes or nothing, written by \<open>SetOption(code, bytes)\<close>, and with the accessor
  \<open>ClassIdentifier()\<close> for the payload of the Vendor Class Identifier.

  A message has fixed header fields besides its options; the plugin touches none of them,
  and they are kept as one field of any type. The field \<open>Options\<close> of a message is the
  address of its map object, \<open>None\<close> for the \<open>nil\<close> map.
\<close>

type_synonym Options = "byte \<rightharpoonup> byte list"

record 'h DHCPv4 =
  Header :: 'h
  Options :: "nat option"

record Option =
  Code :: byte
  Value :: "byte list"

definition OptionVendorSpecificInformation :: byte where
  "OptionVendorSpecificInformation = 43"

definition OptionClassIdentifier :: byte where
  "OptionClassIdentifier = 60"

definition OptionClientMachineIdentifier :: byte where
  "OptionClientMachineIdentifier = 97"

text \<open>
  The two panics of Go that the plugin can run into: the dereference of a \<open>nil\<close> pointer
  and the assignment to an entry of a \<open>nil\<close> map.
\<close>

datatype panic = NilDereference | NilMapAssignment

text \<open>
  \<open>maps\<close> holds the map objects, \<open>next_map\<close> is the address that the next \<open>make(Options)\<close>
  returns.
\<close>

record 'h pxe_state =
  opt43 :: "Option option"
  opt60 :: "Option option"
  heap :: "nat \<rightharpoonup> 'h DHCPv4"
  maps :: "nat \<Rightarrow> Options"
  next_map :: nat

type_synonym 'h Handler4 =
  "'h pxe_state \<Rightarrow> nat \<Rightarrow> nat \<Rightarrow> panic + ('h pxe_state \<times> nat \<times> bool)"

text \<open>The option set that a message holds, as it reads: the \<open>nil\<close> map reads as empty.\<close>

definition options_of :: "'h pxe_state \<Rightarrow> 'h DHCPv4 \<Rightarrow> Options" where
  "options_of s d = (case Options d of None \<Rightarrow> Map.empty | Some a \<Rightarrow> maps s a)"

text \<open>
  Modelled from the spec: reading a code gives its payload, and an absent code gives the
  empty byte slice (Go's \<open>nil\<close> slice, of length 0).
\<close>

definition Get :: "byte \<Rightarrow> Options \<Rightarrow> byte list" where
  "Get code opts = (case opts code of None \<Rightarrow> [] | Some v \<Rightarrow> v)"

text \<open>
  Modelled from the spec: \<open>m.Update(opt)\<close> on an option map \<open>m\<close>. Setting a code replaces
  its payload, or adds the code, in the map object itself. It is a plain assignment to a
  map entry, which panics in Go when the map is \<open>nil\<close>.
\<close>

definition Update :: "nat option \<Rightarrow> Option \<Rightarrow> 'h pxe_state \<Rightarrow> panic + 'h pxe_state" where
  "Update m opt s =
     (case m of
        None \<Rightarrow> Inl NilMapAssignment
      | Some a \<Rightarrow> Inr (s\<lparr>maps := (maps s)(a := (maps s a)(Code opt \<mapsto> Value opt))\<rparr>))"

text \<open>Modelled from the spec: the two option constructors the plugin calls.\<close>

definition OptClassIdentifier :: "byte list \<Rightarrow> Option" where
  "OptClassIdentifier name = \<lparr>Code = OptionClassIdentifier, Value = name\<rparr>"

definition OptGeneric :: "byte \<Rightarrow> byte list \<Rightarrow> Option" where
  "OptGeneric code val = \<lparr>Code = code, Value = val\<rparr>"

text \<open>Modelled from the spec: the accessors of a message.\<close>

definition ClassIdentifier :: "'h pxe_state \<Rightarrow> 'h DHCPv4 \<Rightarrow> byte list" where
  "ClassIdentifier s d = Get OptionClassIdentifier (options_of s d)"

definition GetOneOption :: "'h pxe_state \<Rightarrow> byte \<Rightarrow> 'h DHCPv4 \<Rightarrow> byte list" where
  "GetOneOption s code d = Get code (options_of s d)"

text \<open>
  Modelled from the spec: \<open>p.UpdateOption(opt)\<close> for a pointer \<open>p\<close> to a message. Unlike
  \<open>Update\<close> on the map, the method of the message first gives the message a new, empty map
  when it holds the \<open>nil\<close> map.
\<close>

definition UpdateOption :: "nat \<Rightarrow> Option \<Rightarrow> 'h pxe_state \<Rightarrow> panic + 'h pxe_state" where
  "UpdateOption p opt s =
     (case heap s p of
        None \<Rightarrow> Inl NilDereference
      | Some d \<Rightarrow>
          (case Options d of
             None \<Rightarrow>
               let a = next_map s;
                   s1 = s\<lparr>heap := (heap s)(p \<mapsto> d\<lparr>Options := Some a\<rparr>),
                          maps := (maps s)(a := Map.empty),
                          next_map := Suc a\<rparr>
               in Update (Some a) opt s1
           | Some a \<Rightarrow> Update (Some a) opt s))"

text \<open>\<open>*p\<close> for a pointer to an option template.\<close>

definition deref :: "'a option \<Rightarrow> panic + 'a" where
  "deref p = (case p of None \<Rightarrow> Inl NilDereference | Some v \<Rightarrow> Inr v)"

subsection \<open>pxeHandler4\<close>

text \<open>
  The guard of the first \<open>if\<close> of the handler (its comment: needs to be pxe request),
  before negation.
\<close>

definition pxe_request :: "'h pxe_state \<Rightarrow> 'h DHCPv4 \<Rightarrow> bool" where
  "pxe_request s req =
     (length (ClassIdentifier s req) = 32
      \<and> HasPrefix (ClassIdentifier s req) (bytes ''PXEClient''))"

text \<open>
  The three writes of the handler, in the order of the source. The first is
  \<open>resp.Options.Update(*opt60)\<close>: it reads the map of the response, dereferences \<open>opt60\<close>
  and assigns to the map as it is. The other two are \<open>resp.UpdateOption(...)\<close>; the third
  dereferences \<open>opt43\<close> before the call.
\<close>

definition add_pxe_options :: "nat \<Rightarrow> byte list \<Rightarrow> 'h pxe_state \<Rightarrow> panic + 'h pxe_state" where
  "add_pxe_options resp cmi s =
     (case heap s resp of
        None \<Rightarrow> Inl NilDereference
      | Some d \<Rightarrow>
          (case deref (opt60 s) of
             Inl e \<Rightarrow> Inl e
           | Inr o60 \<Rightarrow>
               (case Update (Options d) o60 s of
                  Inl e \<Rightarrow> Inl e
                | Inr s1 \<Rightarrow>
                    (case UpdateOption resp (OptGeneric OptionClientMachineIdentifier cmi) s1 of
                       Inl e \<Rightarrow> Inl e
                     | Inr s2 \<Rightarrow>
                         (case deref (opt43 s2) of
                            Inl e \<Rightarrow> Inl e
                          | Inr o43 \<Rightarrow> UpdateOption resp o43 s2)))))"

definition pxeHandler4 :: "'h Handler4" where
  "pxeHandler4 s req resp =
     (case heap s req of
        None \<Rightarrow> Inl NilDereference
      | Some rq \<Rightarrow>
          if \<not> pxe_request s rq then Inr (s, resp, False)
          else
            let cmi = GetOneOption s OptionClientMachineIdentifier rq in
            if length cmi \<noteq> 17 then Inr (s, resp, False)
            else
              (case add_pxe_options resp cmi s of
                 Inl e \<Rightarrow> Inl e
               | Inr s' \<Rightarrow> Inr (s', resp, False)))"

subsection \<open>setup4\<close>

text \<open>
  The second and third components are the two results of the Go function: the handler and
  the error, \<open>None\<close> for Go's \<open>nil\<close> error. The arguments are not used.
\<close>

definition setup4 ::
  "string list \<Rightarrow> 'h pxe_state \<Rightarrow> 'h pxe_state \<times> 'h Handler4 \<times> string option" where
  "setup4 args s =
     (let oci = OptClassIdentifier (bytes ''PXEClient'');
          s1 = s\<lparr>opt60 := Some oci\<rparr>;
          pxe_opt6 = [6, 1, 8];
          pxe_opt255 = [255];
          ovsi = OptGeneric OptionVendorSpecificInformation (pxe_opt6 @ pxe_opt255);
          s2 = s1\<lparr>opt43 := Some ovsi\<rparr>
      in (s2, pxeHandler4, None))"

text \<open>A sequence of invocations of the handler, each on the state the one before left.\<close>

fun invoke_all :: "'h pxe_state \<Rightarrow> (nat \<times> nat) list \<Rightarrow> panic + 'h pxe_state" where
  "invoke_all s [] = Inr s"
| "invoke_all s ((req, resp) # calls) =
     (case pxeHandler4 s req resp of
        Inl e \<Rightarrow> Inl e
      | Inr (s', _, _) \<Rightarrow> invoke_all s' calls)"

subsection \<open>Example messages\<close>

text \<open>
  The package variables before \<open>setup4\<close> has run are Go's zero values, two \<open>nil\<close>
  pointers. The examples are a request of a PXE client (message 0, map 0), a response that
  already carries two options (message 1, map 1), a request whose class identifier is too
  short (message 2, map 2), a response that holds the \<open>nil\<close> map (message 3) and a
  message that is another object than message 0 and holds the same map (message 4).
\<close>

definition pxe_discover :: Options where
  "pxe_discover =
     [60 \<mapsto> bytes ''PXEClient:Arch:00000:UNDI:002001'',
      97 \<mapsto> [0, 1, 2, 3, 4, 5, 6, 7, 8, 9, 10, 11, 12, 13, 14, 15, 16]]"

definition short_discover :: Options where
  "short_discover = [60 \<mapsto> bytes ''PXEClient'']"

definition offer :: Options where
  "offer = [53 \<mapsto> [2], 43 \<mapsto> [1, 1, 7]]"

definition pxe_offer :: Options where
  "pxe_offer =
     [53 \<mapsto> [2], 43 \<mapsto> [6, 1, 8, 255], 60 \<mapsto> [80, 88, 69, 67, 108, 105, 101, 110, 116],
      97 \<mapsto> [0, 1, 2, 3, 4, 5, 6, 7, 8, 9, 10, 11, 12, 13, 14, 15, 16]]"

definition pxe_discover_answered :: Options where
  "pxe_discover_answered =
     [60 \<mapsto> [80, 88, 69, 67, 108, 105, 101, 110, 116],
      97 \<mapsto> [0, 1, 2, 3, 4, 5, 6, 7, 8, 9, 10, 11, 12, 13, 14, 15, 16],
      43 \<mapsto> [6, 1, 8, 255]]"

definition message :: "nat option \<Rightarrow> unit DHCPv4" where
  "message m = \<lparr>Header = (), Options = m\<rparr>"

definition example_heap :: "nat \<rightharpoonup> unit DHCPv4" where
  "example_heap =
     [0 \<mapsto> message (Some 0), 1 \<mapsto> message (Some 1), 2 \<mapsto> message (Some 2),
      3 \<mapsto> message None, 4 \<mapsto> message (Some 0)]"

definition example_maps :: "nat \<Rightarrow> Options" where
  "example_maps = (\<lambda>a. Map.empty)(0 := pxe_discover, 1 := offer, 2 := short_discover)"

definition initial_state :: "unit pxe_state" where
  "initial_state =
     \<lparr>opt43 = None, opt60 = None, heap = example_heap, maps = example_maps, next_map = 3\<rparr>"

definition ready_state :: "unit pxe_state" where
  "ready_state = fst (setup4 [] initial_state)"

section \<open>Basic facts\<close>

lemma bytes_PXEClient: "bytes ''PXEClient'' = [80, 88, 69, 67, 108, 105, 101, 110, 116]"
  by (simp add: bytes_def)

lemmas option_codes =
  OptionVendorSpecificInformation_def OptionClassIdentifier_def OptionClientMachineIdentifier_def

lemma HasPrefix_append: "HasPrefix s pre \<longleftrightarrow> (\<exists>rest. s = pre @ rest)"
proof
  assume "HasPrefix s pre"
  then have "s = pre @ drop (length pre) s"
    by (metis HasPrefix_def append_take_drop_id)
  then show "\<exists>rest. s = pre @ rest" ..
next
  assume "\<exists>rest. s = pre @ rest"
  then show "HasPrefix s pre" by (auto simp: HasPrefix_def)
qed

lemma pxe_request_Options:
  "pxe_request s d \<longleftrightarrow>
     (\<exists>v rest. options_of s d 60 = Some v \<and> length v = 32 \<and> v = bytes ''PXEClient'' @ rest)"
  by (auto simp: pxe_request_def ClassIdentifier_def Get_def option_codes HasPrefix_append
      split: option.splits)

lemma setup4_state:
  "fst (setup4 args s) =
     s\<lparr>opt60 := Some \<lparr>Code = 60, Value = bytes ''PXEClient''\<rparr>,
       opt43 := Some \<lparr>Code = 43, Value = [6, 1, 8, 255]\<rparr>\<rparr>"
  by (simp add: setup4_def Let_def OptClassIdentifier_def OptGeneric_def option_codes)

lemma setup4_templates:
  "opt60 (fst (setup4 args s)) = Some \<lparr>Code = 60, Value = [80, 88, 69, 67, 108, 105, 101, 110, 116]\<rparr>"
  "opt43 (fst (setup4 args s)) = Some \<lparr>Code = 43, Value = [6, 1, 8, 255]\<rparr>"
  by (simp_all add: setup4_state bytes_PXEClient)

subsection \<open>The two ways in which the handler returns\<close>

lemma add_pxe_options_Inr:
  assumes "heap s resp = Some d" "Options d = Some m" "opt60 s = Some a" "opt43 s = Some b"
  shows "add_pxe_options resp cmi s =
     Inr (s\<lparr>maps := (maps s)(m := (maps s m)(Code a \<mapsto> Value a, 97 \<mapsto> cmi,
            Code b \<mapsto> Value b))\<rparr>)"
  using assms
  by (simp add: add_pxe_options_def deref_def UpdateOption_def Update_def OptGeneric_def
      option_codes)

lemma add_pxe_options_nil_map:
  assumes "heap s resp = Some d" "Options d = None" "opt60 s = Some a"
  shows "add_pxe_options resp cmi s = Inl NilMapAssignment"
  using assms by (simp add: add_pxe_options_def deref_def Update_def)

lemma add_pxe_options_cases:
  "add_pxe_options resp cmi s = Inr s' \<Longrightarrow>
     \<exists>d m a b. heap s resp = Some d \<and> Options d = Some m \<and> opt60 s = Some a \<and> opt43 s = Some b"
  by (auto simp: add_pxe_options_def deref_def Update_def UpdateOption_def Let_def
      split: option.splits sum.splits)

lemma pxeHandler4_skip:
  assumes "heap s req = Some rq"
    and "\<not> pxe_request s rq \<or> length (GetOneOption s OptionClientMachineIdentifier rq) \<noteq> 17"
  shows "pxeHandler4 s req resp = Inr (s, resp, False)"
  using assms by (auto simp: pxeHandler4_def Let_def)

lemma pxeHandler4_add:
  assumes "heap s req = Some rq" "pxe_request s rq"
    and "length (GetOneOption s OptionClientMachineIdentifier rq) = 17"
    and "heap s resp = Some d" "Options d = Some m" "opt60 s = Some a" "opt43 s = Some b"
  shows "pxeHandler4 s req resp =
     Inr (s\<lparr>maps := (maps s)(m := (maps s m)(Code a \<mapsto> Value a,
                 97 \<mapsto> GetOneOption s OptionClientMachineIdentifier rq,
                 Code b \<mapsto> Value b))\<rparr>, resp, False)"
  using assms by (simp add: pxeHandler4_def Let_def add_pxe_options_Inr)

lemma pxeHandler4_Inr_cases:
  assumes "pxeHandler4 s req resp = Inr (s', r, b)"
  obtains (skip) rq where "heap s req = Some rq"
      "\<not> pxe_request s rq \<or> length (GetOneOption s OptionClientMachineIdentifier rq) \<noteq> 17"
      "s' = s" "r = resp" "\<not> b"
  | (add) rq d m o60 o43 where "heap s req = Some rq" "pxe_request s rq"
      "length (GetOneOption s OptionClientMachineIdentifier rq) = 17"
      "heap s resp = Some d" "Options d = Some m" "opt60 s = Some o60" "opt43 s = Some o43"
      "s' = s\<lparr>maps := (maps s)(m := (maps s m)(Code o60 \<mapsto> Value o60,
                 97 \<mapsto> GetOneOption s OptionClientMachineIdentifier rq,
                 Code o43 \<mapsto> Value o43))\<rparr>" "r = resp" "\<not> b"
proof (cases "heap s req")
  case None
  with assms show ?thesis by (simp add: pxeHandler4_def)
next
  case (Some rq)
  show ?thesis
  proof (cases "\<not> pxe_request s rq
      \<or> length (GetOneOption s OptionClientMachineIdentifier rq) \<noteq> 17")
    case True
    with Some assms pxeHandler4_skip [OF Some True, of resp] show ?thesis
      by (intro skip [of rq]) auto
  next
    case False
    then have q: "pxe_request s rq"
      "length (GetOneOption s OptionClientMachineIdentifier rq) = 17"
      by auto
    from assms Some q obtain s1 where
      a: "add_pxe_options resp (GetOneOption s OptionClientMachineIdentifier rq) s = Inr s1"
      by (auto simp: pxeHandler4_def Let_def split: sum.splits)
    from add_pxe_options_cases [OF a] obtain d m o60 o43 where
      h: "heap s resp = Some d" "Options d = Some m" "opt60 s = Some o60" "opt43 s = Some o43"
      by blast
    from assms pxeHandler4_add [OF Some q h] show ?thesis
      using Some q h by (intro add [of rq d m o60 o43]) auto
  qed
qed

lemma pxeHandler4_templates:
  assumes "pxeHandler4 s req resp = Inr (s', r, b)"
  shows "opt60 s' = opt60 s \<and> opt43 s' = opt43 s"
  using assms by (cases rule: pxeHandler4_Inr_cases) simp_all

lemma invoke_all_templates:
  "invoke_all s calls = Inr s' \<Longrightarrow> opt60 s' = opt60 s \<and> opt43 s' = opt43 s"
proof (induction calls arbitrary: s)
  case Nil
  then show ?case by simp
next
  case (Cons call calls)
  obtain req resp where call: "call = (req, resp)" by (cases call)
  from Cons.prems call obtain s1 r b where
    step: "pxeHandler4 s req resp = Inr (s1, r, b)" and rest: "invoke_all s1 calls = Inr s'"
    by (auto split: sum.splits)
  from Cons.IH [OF rest] pxeHandler4_templates [OF step] show ?case by simp
qed

subsection \<open>The examples, evaluated\<close>

lemma ready_state_simps:
  "opt60 ready_state = Some \<lparr>Code = 60, Value = [80, 88, 69, 67, 108, 105, 101, 110, 116]\<rparr>"
  "opt43 ready_state = Some \<lparr>Code = 43, Value = [6, 1, 8, 255]\<rparr>"
  "heap ready_state = example_heap" "maps ready_state = example_maps"
  by (simp_all add: ready_state_def setup4_state initial_state_def bytes_PXEClient)

lemma example_heap_simps:
  "example_heap 0 = Some (message (Some 0))" "example_heap (Suc 0) = Some (message (Some 1))"
  "example_heap 2 = Some (message (Some 2))" "example_heap 3 = Some (message None)"
  "example_heap 4 = Some (message (Some 0))"
  by (simp_all add: example_heap_def)

lemma example_maps_simps:
  "example_maps 0 = pxe_discover" "example_maps (Suc 0) = offer"
  "example_maps 2 = short_discover"
  by (simp_all add: example_maps_def)

lemma message_simps: "Options (message m) = m" "Header (message m) = ()"
  by (simp_all add: message_def)

lemma pxe_discover_simps:
  "pxe_discover 60 =
     Some ([80, 88, 69, 67, 108, 105, 101, 110, 116] @ bytes '':Arch:00000:UNDI:002001'')"
  "pxe_discover 97 = Some [0, 1, 2, 3, 4, 5, 6, 7, 8, 9, 10, 11, 12, 13, 14, 15, 16]"
  "length (bytes '':Arch:00000:UNDI:002001'') = 23"
  by (simp_all add: pxe_discover_def bytes_def)

lemma pxe_discover_qualifies:
  "pxe_request ready_state (message (Some 0))"
  "GetOneOption ready_state OptionClientMachineIdentifier (message (Some 0)) =
     [0, 1, 2, 3, 4, 5, 6, 7, 8, 9, 10, 11, 12, 13, 14, 15, 16]"
  by (simp_all add: pxe_request_Options GetOneOption_def Get_def option_codes options_of_def
      message_simps ready_state_simps example_maps_simps pxe_discover_simps bytes_PXEClient)

lemma short_discover_simps:
  "short_discover 60 = Some [80, 88, 69, 67, 108, 105, 101, 110, 116]"
  "short_discover 97 = None"
  by (simp_all add: short_discover_def bytes_def)

lemma offer_updated:
  "offer(60 \<mapsto> [80, 88, 69, 67, 108, 105, 101, 110, 116],
      97 \<mapsto> [0, 1, 2, 3, 4, 5, 6, 7, 8, 9, 10, 11, 12, 13, 14, 15, 16],
      43 \<mapsto> [6, 1, 8, 255]) = pxe_offer"
  by (auto simp: offer_def pxe_offer_def fun_eq_iff)

lemma pxe_discover_updated:
  "pxe_discover(60 \<mapsto> [80, 88, 69, 67, 108, 105, 101, 110, 116],
      97 \<mapsto> [0, 1, 2, 3, 4, 5, 6, 7, 8, 9, 10, 11, 12, 13, 14, 15, 16],
      43 \<mapsto> [6, 1, 8, 255]) = pxe_discover_answered"
  by (auto simp: pxe_discover_def pxe_discover_answered_def fun_eq_iff)

text \<open>The request at 0 with the response at 1: the three options are written into map 1.\<close>

lemma pxeHandler4_example:
  "pxeHandler4 ready_state 0 1 =
     Inr (ready_state\<lparr>maps := example_maps(1 := pxe_offer)\<rparr>, 1, False)"
  using pxeHandler4_add [of ready_state 0 "message (Some 0)" 1 "message (Some 1)" 1,
      OF _ pxe_discover_qualifies(1) _ _ _ ready_state_simps(1,2)]
  by (simp add: ready_state_simps example_heap_simps example_maps_simps message_simps
      pxe_discover_qualifies offer_updated)

text \<open>
  The same message as request and as response, and a response that is another message with
  the map of the request: the three options are written into map 0, the map of the request.
\<close>

lemma pxeHandler4_same_message:
  "pxeHandler4 ready_state 0 0 =
     Inr (ready_state\<lparr>maps := example_maps(0 := pxe_discover_answered)\<rparr>, 0, False)"
  using pxeHandler4_add [of ready_state 0 "message (Some 0)" 0 "message (Some 0)" 0,
      OF _ pxe_discover_qualifies(1) _ _ _ ready_state_simps(1,2)]
  by (simp add: ready_state_simps example_heap_simps example_maps_simps message_simps
      pxe_discover_qualifies pxe_discover_updated)

lemma pxeHandler4_shared_map:
  "pxeHandler4 ready_state 0 4 =
     Inr (ready_state\<lparr>maps := example_maps(0 := pxe_discover_answered)\<rparr>, 4, False)"
  using pxeHandler4_add [of ready_state 0 "message (Some 0)" 4 "message (Some 0)" 0,
      OF _ pxe_discover_qualifies(1) _ _ _ ready_state_simps(1,2)]
  by (simp add: ready_state_simps example_heap_simps example_maps_simps message_simps
      pxe_discover_qualifies pxe_discover_updated)

text \<open>
  The request at 0 with the response at 3, which holds the \<open>nil\<close> map: the first write
  panics.
\<close>

lemma pxeHandler4_nil_map:
  "pxeHandler4 ready_state 0 3 = Inl NilMapAssignment"
  using add_pxe_options_nil_map [of ready_state 3 "message None"
      "\<lparr>Code = 60, Value = [80, 88, 69, 67, 108, 105, 101, 110, 116]\<rparr>"]
  by (simp add: pxeHandler4_def Let_def ready_state_simps example_heap_simps message_simps
      pxe_discover_qualifies)

section \<open>The claims\<close>

text \<open>
  The state \<open>fst (setup4 args s0)\<close> is any state in which setup has run, with any store of
  messages and maps. The option set of a message \<open>d\<close> in a state \<open>s\<close> is read as
  \<open>options_of s d\<close>.
\<close>

text \<open>
  C1 (as amended). For every request whose Vendor Class Identifier option (code 60) is
  exactly 32 bytes beginning with the ASCII bytes "PXEClient" and whose Client Machine
  Identifier option (code 97) has a payload of exactly 17 bytes, the handler, called after
  setup with a response that has an option map, returns the response pointer, and the
  response's option set then contains option 60 equal to the 9 bytes "PXEClient", option 97
  equal to the 17 bytes of the request and option 43 equal to the bytes 06 01 08 FF. The
  boolean that the handler returns is \<open>false\<close>: it is the flag that stops the handler
  chain, and the handler has no result that reports the match.
\<close>

theorem pxeHandler4_adds_options:
  assumes "heap (fst (setup4 args s0)) req = Some rq"
    and "heap (fst (setup4 args s0)) resp = Some d" and "Options d = Some m"
    and "options_of (fst (setup4 args s0)) rq 60 =
           Some ([80, 88, 69, 67, 108, 105, 101, 110, 116] @ rest)"
    and "length ([80, 88, 69, 67, 108, 105, 101, 110, 116] @ rest) = 32"
    and "options_of (fst (setup4 args s0)) rq 97 = Some cmi" and "length cmi = 17"
  shows "\<exists>s'. pxeHandler4 (fst (setup4 args s0)) req resp = Inr (s', resp, False)
           \<and> (\<exists>d'. heap s' resp = Some d'
                 \<and> options_of s' d' 60 = Some [80, 88, 69, 67, 108, 105, 101, 110, 116]
                 \<and> options_of s' d' 97 = Some cmi
                 \<and> options_of s' d' 43 = Some [6, 1, 8, 255])"
proof -
  let ?s = "fst (setup4 args s0)"
  have q: "pxe_request ?s rq"
    unfolding pxe_request_Options bytes_PXEClient using assms(4,5) by blast
  have c: "GetOneOption ?s OptionClientMachineIdentifier rq = cmi"
    using assms(6) by (simp add: GetOneOption_def Get_def option_codes)
  show ?thesis
    using pxeHandler4_add [OF assms(1) q _ assms(2,3) setup4_templates] assms(2,3,7) c
    by (simp add: options_of_def)
qed

theorem pxeHandler4_adds_options_witness:
  "\<exists>s'. pxeHandler4 ready_state 0 1 = Inr (s', 1, False)
      \<and> (\<exists>d'. heap s' 1 = Some d'
            \<and> options_of s' d' 60 = Some [80, 88, 69, 67, 108, 105, 101, 110, 116]
            \<and> options_of s' d' 97 = Some [0, 1, 2, 3, 4, 5, 6, 7, 8, 9, 10, 11, 12, 13, 14, 15, 16]
            \<and> options_of s' d' 43 = Some [6, 1, 8, 255])"
  using pxeHandler4_adds_options [of "[]" initial_state 0 "message (Some 0)" 1
      "message (Some 1)" 1 "bytes '':Arch:00000:UNDI:002001''"
      "[0, 1, 2, 3, 4, 5, 6, 7, 8, 9, 10, 11, 12, 13, 14, 15, 16]"]
  by (simp add: ready_state_def [symmetric] ready_state_simps example_heap_simps
      example_maps_simps message_simps options_of_def pxe_discover_simps)

text \<open>
  C1 as stated fails: the request at address 0 has a 32-byte class identifier that begins
  with "PXEClient" and a 17-byte machine identifier, the three options are written into the
  response at address 1, and the boolean returned is \<open>False\<close>, not \<open>True\<close>.
\<close>

theorem pxeHandler4_match_flag_counterexample:
  "heap ready_state 0 = Some (message (Some 0))
   \<and> options_of ready_state (message (Some 0)) 60 =
       Some ([80, 88, 69, 67, 108, 105, 101, 110, 116] @ bytes '':Arch:00000:UNDI:002001'')
   \<and> length ([80, 88, 69, 67, 108, 105, 101, 110, 116] @ bytes '':Arch:00000:UNDI:002001'') = 32
   \<and> options_of ready_state (message (Some 0)) 97 =
       Some [0, 1, 2, 3, 4, 5, 6, 7, 8, 9, 10, 11, 12, 13, 14, 15, 16]
   \<and> pxeHandler4 ready_state 0 1 =
       Inr (ready_state\<lparr>maps := example_maps(1 := pxe_offer)\<rparr>, 1, False)"
  using pxeHandler4_example
  by (simp add: ready_state_simps example_heap_simps example_maps_simps message_simps
      options_of_def pxe_discover_simps)

text \<open>
  C2. The PXE classifier, the guard of the handler's first \<open>if\<close>, is true if and only if
  the message has a Vendor Class Identifier (option 60) whose payload has length exactly 32
  and begins with the ASCII bytes "PXEClient". It is a total function of the message: on a
  message without the option, or with the option in any other shape, it is false.
\<close>

theorem pxe_request_iff:
  "pxe_request s d \<longleftrightarrow>
     (\<exists>v. options_of s d 60 = Some v \<and> length v = 32 \<and>
          (\<exists>rest. v = [80, 88, 69, 67, 108, 105, 101, 110, 116] @ rest))"
  unfolding pxe_request_Options bytes_PXEClient by blast

theorem pxe_request_iff_witness:
  "pxe_request ready_state (message (Some 0)) \<and> \<not> pxe_request ready_state (message (Some 2))
   \<and> \<not> pxe_request ready_state (message (Some 1)) \<and> \<not> pxe_request ready_state (message None)"
  by (simp add: pxe_request_iff options_of_def message_simps ready_state_simps
      example_maps_simps pxe_discover_simps short_discover_simps offer_def)

text \<open>
  C3. For every request that fails the preconditions of augmentation (option 60 absent or
  not PXE-shaped, or option 97 absent or with a payload whose length is not 17) the handler
  returns the response pointer it was given and the boolean \<open>False\<close>, and leaves the whole
  state as it was, the response included. It returns: no panic is raised, whatever the
  response pointer and the templates are.
\<close>

theorem pxeHandler4_no_match:
  assumes "heap s req = Some rq"
    and "options_of s rq 60 = None
       \<or> (\<exists>v. options_of s rq 60 = Some v \<and>
              \<not> (length v = 32 \<and> (\<exists>rest. v = [80, 88, 69, 67, 108, 105, 101, 110, 116] @ rest)))
       \<or> options_of s rq 97 = None
       \<or> (\<exists>cmi. options_of s rq 97 = Some cmi \<and> length cmi \<noteq> 17)"
  shows "pxeHandler4 s req resp = Inr (s, resp, False)"
proof (rule pxeHandler4_skip [OF assms(1)])
  from assms(2)
  show "\<not> pxe_request s rq \<or> length (GetOneOption s OptionClientMachineIdentifier rq) \<noteq> 17"
    unfolding pxe_request_Options bytes_PXEClient
    by (auto simp: GetOneOption_def Get_def option_codes)
qed

theorem pxeHandler4_no_match_witness:
  "pxeHandler4 ready_state 2 1 = Inr (ready_state, 1, False)
   \<and> pxeHandler4 ready_state 2 3 = Inr (ready_state, 3, False)"
  using pxeHandler4_no_match [of ready_state 2 "message (Some 2)" 1]
    pxeHandler4_no_match [of ready_state 2 "message (Some 2)" 3]
  by (simp add: ready_state_simps example_heap_simps example_maps_simps message_simps
      options_of_def short_discover_simps)

text \<open>
  C4. For every request and response, the handler (after setup) never removes an option
  from the response, and every option of the response with a code other than 60, 43 and 97
  has the same payload after the handler has run as before. The header fields of the
  response are unchanged as well.
\<close>

theorem pxeHandler4_frame:
  assumes "pxeHandler4 (fst (setup4 args s0)) req resp = Inr (s', r, b)"
    and "heap (fst (setup4 args s0)) resp = Some d"
  shows "\<exists>d'. heap s' r = Some d' \<and> Header d' = Header d
           \<and> dom (options_of (fst (setup4 args s0)) d) \<subseteq> dom (options_of s' d')
           \<and> (\<forall>code. code \<notin> {60, 43, 97} \<longrightarrow>
                 options_of s' d' code = options_of (fst (setup4 args s0)) d code)"
  using assms(1)
proof (cases rule: pxeHandler4_Inr_cases)
  case (skip rq)
  with assms(2) show ?thesis by simp
next
  case (add rq d2 m o60 o43)
  with assms(2) show ?thesis
    by (auto simp: setup4_state options_of_def)
qed

theorem pxeHandler4_frame_witness:
  "\<exists>d'. heap (ready_state\<lparr>maps := example_maps(1 := pxe_offer)\<rparr>) 1 = Some d'
      \<and> Header d' = ()
      \<and> dom offer \<subseteq> dom (options_of (ready_state\<lparr>maps := example_maps(1 := pxe_offer)\<rparr>) d')
      \<and> options_of (ready_state\<lparr>maps := example_maps(1 := pxe_offer)\<rparr>) d' 53 = offer 53"
proof -
  let ?s' = "ready_state\<lparr>maps := example_maps(1 := pxe_offer)\<rparr>"
  have "\<exists>d'. heap ?s' 1 = Some d' \<and> Header d' = ()
      \<and> dom offer \<subseteq> dom (options_of ?s' d')
      \<and> (\<forall>code. code \<notin> {60, 43, 97} \<longrightarrow> options_of ?s' d' code = offer code)"
    using pxeHandler4_frame [of "[]" initial_state 0 1 ?s' 1 False "message (Some 1)"]
      pxeHandler4_example
    by (simp add: ready_state_def [symmetric] ready_state_simps example_heap_simps
        example_maps_simps message_simps options_of_def)
  then obtain d' where d': "heap ?s' 1 = Some d'" "Header d' = ()"
    "dom offer \<subseteq> dom (options_of ?s' d')"
    "\<forall>code. code \<notin> {60, 43, 97} \<longrightarrow> options_of ?s' d' code = offer code"
    by blast
  from d'(4) have "options_of ?s' d' 53 = offer 53" by simp
  with d'(1-3) show ?thesis by blast
qed

text \<open>
  C5. Augmentation is idempotent: for every request and response, when the handler (after
  setup) has returned, applying it again with the same request and the response it returned
  gives the same state and the same result. Options 60, 97 and 43 are set again to the
  values they already have; nothing is appended.
\<close>

theorem pxeHandler4_idempotent:
  assumes "pxeHandler4 (fst (setup4 args s0)) req resp = Inr (s', r, b)"
  shows "pxeHandler4 s' req r = Inr (s', r, b)"
  using assms
proof (cases rule: pxeHandler4_Inr_cases)
  case (skip rq)
  with assms show ?thesis by simp
next
  case (add rq d m o60 o43)
  let ?s = "fst (setup4 args s0)"
  let ?cmi = "GetOneOption ?s OptionClientMachineIdentifier rq"
  let ?m' = "(maps ?s m)(Code o60 \<mapsto> Value o60, 97 \<mapsto> ?cmi, Code o43 \<mapsto> Value o43)"
  have t: "o60 = \<lparr>Code = 60, Value = bytes ''PXEClient''\<rparr>"
    "o43 = \<lparr>Code = 43, Value = [6, 1, 8, 255]\<rparr>"
    using add(6,7) by (simp_all add: setup4_state)
  have s': "s' = ?s\<lparr>maps := (maps ?s)(m := ?m')\<rparr>" by (rule add(8))
  have h': "heap s' req = Some rq" "heap s' resp = Some d" "opt60 s' = Some o60"
    "opt43 s' = Some o43" "maps s' m = ?m'"
    using add by simp_all
  show ?thesis
  proof (cases "Options rq = Some m")
    case True
    then have "options_of s' rq 60 = Some (bytes ''PXEClient'')"
      by (simp add: options_of_def h' t)
    then have "\<not> pxe_request s' rq"
      by (simp add: pxe_request_Options bytes_def)
    then show ?thesis
      using add(9,10) pxeHandler4_skip [OF h'(1), of resp] by simp
  next
    case False
    then have same: "options_of s' rq = options_of ?s rq"
      by (cases "Options rq") (simp_all add: options_of_def s')
    then have q: "pxe_request s' rq" "GetOneOption s' OptionClientMachineIdentifier rq = ?cmi"
      using add(2) by (simp_all add: pxe_request_Options GetOneOption_def)
    have "?m'(Code o60 \<mapsto> Value o60, 97 \<mapsto> ?cmi, Code o43 \<mapsto> Value o43) = ?m'"
      by (auto simp: t fun_eq_iff)
    then have "s'\<lparr>maps := (maps s')(m := (maps s' m)(Code o60 \<mapsto> Value o60, 97 \<mapsto> ?cmi,
        Code o43 \<mapsto> Value o43))\<rparr> = s'"
      by (simp add: h'(5)) (simp add: s')
    then show ?thesis
      using pxeHandler4_add [OF h'(1) q(1) _ h'(2) add(5) h'(3,4)] q(2) add(3,9,10)
      by simp
  qed
qed

theorem pxeHandler4_idempotent_witness:
  "pxeHandler4 (ready_state\<lparr>maps := example_maps(1 := pxe_offer)\<rparr>) 0 1 =
     Inr (ready_state\<lparr>maps := example_maps(1 := pxe_offer)\<rparr>, 1, False)"
  using pxeHandler4_idempotent [of "[]" initial_state 0 1
      "ready_state\<lparr>maps := example_maps(1 := pxe_offer)\<rparr>" 1 False]
    pxeHandler4_example
  by (simp add: ready_state_def [symmetric])

text \<open>
  C6. For every request and response, the handler signals that the chain continues: the
  boolean it returns, which would stop the chain if it were \<open>True\<close>, is \<open>False\<close>, whether
  or not options were added. Every outcome of an invocation is either a return of the
  response pointer with \<open>False\<close> or one of the two panics, and after setup, with a live
  request and a live response that has an option map, the handler returns.
\<close>

theorem pxeHandler4_continues:
  "(pxeHandler4 s req resp = Inl NilDereference
      \<or> pxeHandler4 s req resp = Inl NilMapAssignment
      \<or> (\<exists>s'. pxeHandler4 s req resp = Inr (s', resp, False)))
   \<and> ((\<exists>rq. heap (fst (setup4 args s)) req = Some rq)
        \<and> (\<exists>d m. heap (fst (setup4 args s)) resp = Some d \<and> Options d = Some m) \<longrightarrow>
        (\<exists>s'. pxeHandler4 (fst (setup4 args s)) req resp = Inr (s', resp, False)))"
proof (intro conjI impI)
  show "pxeHandler4 s req resp = Inl NilDereference
      \<or> pxeHandler4 s req resp = Inl NilMapAssignment
      \<or> (\<exists>s'. pxeHandler4 s req resp = Inr (s', resp, False))"
  proof (cases "pxeHandler4 s req resp")
    case (Inl e)
    then show ?thesis by (cases e) simp_all
  next
    case (Inr res)
    obtain s' r b where res: "res = (s', r, b)" by (cases res)
    from Inr [unfolded res] have "r = resp \<and> \<not> b"
      by (cases rule: pxeHandler4_Inr_cases) simp_all
    with Inr res show ?thesis by simp
  qed
next
  let ?s = "fst (setup4 args s)"
  assume "(\<exists>rq. heap ?s req = Some rq) \<and> (\<exists>d m. heap ?s resp = Some d \<and> Options d = Some m)"
  then obtain rq d m where h: "heap ?s req = Some rq" "heap ?s resp = Some d"
    "Options d = Some m" by auto
  show "\<exists>s'. pxeHandler4 ?s req resp = Inr (s', resp, False)"
  proof (cases "pxe_request ?s rq
      \<and> length (GetOneOption ?s OptionClientMachineIdentifier rq) = 17")
    case True
    then show ?thesis using pxeHandler4_add [OF h(1) _ _ h(2,3) setup4_templates] by simp
  next
    case False
    then show ?thesis using pxeHandler4_skip [OF h(1), of resp] by auto
  qed
qed

theorem pxeHandler4_continues_witness:
  "(\<exists>s'. pxeHandler4 ready_state 0 1 = Inr (s', 1, False))
   \<and> (\<exists>s'. pxeHandler4 ready_state 2 1 = Inr (s', 1, False))"
  using pxeHandler4_continues [of initial_state 0 1 "[]"]
    pxeHandler4_continues [of initial_state 2 1 "[]"]
  by (simp add: ready_state_def [symmetric] ready_state_simps example_heap_simps
      message_simps)

text \<open>
  C7. The two templates, the class-identifier option holding "PXEClient" and the
  vendor-specific-information option holding the bytes 06 01 08 FF, are built by setup, and
  no invocation of the handler modifies them: after any sequence of invocations that
  follows setup, and one more invocation, the package variables still hold the values that
  setup built, and if that last invocation augments its response, the response receives
  these very values as options 60 and 43.
\<close>

theorem templates_read_only:
  assumes "invoke_all (fst (setup4 args s0)) calls = Inr s"
    and "pxeHandler4 s req resp = Inr (s', r, b)"
  shows "opt60 s' = opt60 (fst (setup4 args s0)) \<and> opt43 s' = opt43 (fst (setup4 args s0))
     \<and> opt60 s' = Some \<lparr>Code = 60, Value = [80, 88, 69, 67, 108, 105, 101, 110, 116]\<rparr>
     \<and> opt43 s' = Some \<lparr>Code = 43, Value = [6, 1, 8, 255]\<rparr>
     \<and> ((\<exists>rq. heap s req = Some rq \<and> pxe_request s rq
              \<and> length (GetOneOption s OptionClientMachineIdentifier rq) = 17) \<longrightarrow>
          (\<exists>d'. heap s' resp = Some d'
              \<and> options_of s' d' 60 = Some [80, 88, 69, 67, 108, 105, 101, 110, 116]
              \<and> options_of s' d' 43 = Some [6, 1, 8, 255]))"
proof -
  let ?s0 = "fst (setup4 args s0)"
  have t: "opt60 s = opt60 ?s0" "opt43 s = opt43 ?s0"
    using invoke_all_templates [OF assms(1)] by simp_all
  have t': "opt60 s' = opt60 s" "opt43 s' = opt43 s"
    using pxeHandler4_templates [OF assms(2)] by simp_all
  have aug: "\<exists>d'. heap s' resp = Some d'
              \<and> options_of s' d' 60 = Some [80, 88, 69, 67, 108, 105, 101, 110, 116]
              \<and> options_of s' d' 43 = Some [6, 1, 8, 255]"
    if "\<exists>rq. heap s req = Some rq \<and> pxe_request s rq
              \<and> length (GetOneOption s OptionClientMachineIdentifier rq) = 17"
    using assms(2)
  proof (cases rule: pxeHandler4_Inr_cases)
    case (skip rq)
    with that show ?thesis by auto
  next
    case (add rq d m o60 o43)
    with t show ?thesis by (auto simp: setup4_templates options_of_def)
  qed
  from t t' aug show ?thesis by (simp add: setup4_templates)
qed

theorem templates_read_only_witness:
  "opt60 (ready_state\<lparr>maps := example_maps(1 := pxe_offer)\<rparr>) = opt60 ready_state
   \<and> opt43 (ready_state\<lparr>maps := example_maps(1 := pxe_offer)\<rparr>) = opt43 ready_state
   \<and> opt60 (ready_state\<lparr>maps := example_maps(1 := pxe_offer)\<rparr>) =
       Some \<lparr>Code = 60, Value = [80, 88, 69, 67, 108, 105, 101, 110, 116]\<rparr>
   \<and> opt43 (ready_state\<lparr>maps := example_maps(1 := pxe_offer)\<rparr>) =
       Some \<lparr>Code = 43, Value = [6, 1, 8, 255]\<rparr>
   \<and> (\<exists>d'. heap (ready_state\<lparr>maps := example_maps(1 := pxe_offer)\<rparr>) 1 = Some d'
         \<and> options_of (ready_state\<lparr>maps := example_maps(1 := pxe_offer)\<rparr>) d' 60 =
             Some [80, 88, 69, 67, 108, 105, 101, 110, 116]
         \<and> options_of (ready_state\<lparr>maps := example_maps(1 := pxe_offer)\<rparr>) d' 43 =
             Some [6, 1, 8, 255])"
proof -
  have run: "invoke_all (fst (setup4 [] initial_state)) [(2, 1)] = Inr ready_state"
    using pxeHandler4_skip [of ready_state 2 "message (Some 2)" 1]
    by (simp add: ready_state_def [symmetric] ready_state_simps example_heap_simps
        example_maps_simps message_simps options_of_def pxe_request_Options
        short_discover_simps)
  have q: "\<exists>rq. heap ready_state 0 = Some rq \<and> pxe_request ready_state rq
              \<and> length (GetOneOption ready_state OptionClientMachineIdentifier rq) = 17"
    by (simp add: ready_state_simps example_heap_simps pxe_discover_qualifies)
  from templates_read_only [OF run pxeHandler4_example] q show ?thesis
    by (simp add: ready_state_def [symmetric])
qed

text \<open>
  C8. Setup never fails: for every argument list it returns the handler and no error, and
  it leaves the templates built as the class-identifier option (code 60) with payload
  "PXEClient" and the vendor-specific-information option (code 43) with payload
  06 01 08 FF. Nothing else of the state changes.
\<close>

theorem setup4_ready:
  "setup4 args s =
     (s\<lparr>opt60 := Some \<lparr>Code = 60, Value = [80, 88, 69, 67, 108, 105, 101, 110, 116]\<rparr>,
        opt43 := Some \<lparr>Code = 43, Value = [6, 1, 8, 255]\<rparr>\<rparr>, pxeHandler4, None)"
  by (simp add: setup4_def Let_def OptClassIdentifier_def OptGeneric_def option_codes bytes_def)

text \<open>
  C10 (as amended). The handler only reads the request, and writes through the response:
  for every invocation that returns and in which the response does not hold the map object
  that the request holds (so that, in particular, the response is another message than the
  request), the request message is the same after the invocation as before, and so is every
  option of it, whether or not options were added to the response.
\<close>

theorem pxeHandler4_request_unchanged:
  assumes "pxeHandler4 s req resp = Inr (s', r, b)" and "heap s req = Some rq"
    and "\<not> (\<exists>d m. heap s resp = Some d \<and> Options d = Some m \<and> Options rq = Some m)"
  shows "heap s' req = Some rq \<and> options_of s' rq = options_of s rq"
  using assms(1)
proof (cases rule: pxeHandler4_Inr_cases)
  case (skip rq')
  with assms(2) show ?thesis by simp
next
  case (add rq' d m o60 o43)
  with assms(3) have "Options rq \<noteq> Some m" by blast
  then have "options_of s' rq = options_of s rq"
    by (cases "Options rq") (simp_all add: options_of_def add(8))
  with assms(2) add(8) show ?thesis by simp
qed

theorem pxeHandler4_request_unchanged_witness:
  "heap (ready_state\<lparr>maps := example_maps(1 := pxe_offer)\<rparr>) 0 = Some (message (Some 0))
   \<and> options_of (ready_state\<lparr>maps := example_maps(1 := pxe_offer)\<rparr>) (message (Some 0)) =
       options_of ready_state (message (Some 0))"
  using pxeHandler4_request_unchanged [OF pxeHandler4_example, of "message (Some 0)"]
  by (simp add: ready_state_simps example_heap_simps message_simps)

text \<open>
  C10 as stated fails: when the message at address 0 is passed as the request and as the
  response, the handler returns, and option 60 of the request, 32 bytes before the
  invocation, is the 9 bytes "PXEClient" after it.
\<close>

theorem pxeHandler4_request_counterexample:
  "heap ready_state 0 = Some (message (Some 0))
   \<and> options_of ready_state (message (Some 0)) 60 =
       Some ([80, 88, 69, 67, 108, 105, 101, 110, 116] @ bytes '':Arch:00000:UNDI:002001'')
   \<and> pxeHandler4 ready_state 0 0 =
       Inr (ready_state\<lparr>maps := example_maps(0 := pxe_discover_answered)\<rparr>, 0, False)
   \<and> heap (ready_state\<lparr>maps := example_maps(0 := pxe_discover_answered)\<rparr>) 0 =
       Some (message (Some 0))
   \<and> options_of (ready_state\<lparr>maps := example_maps(0 := pxe_discover_answered)\<rparr>)
         (message (Some 0)) 60 = Some [80, 88, 69, 67, 108, 105, 101, 110, 116]"
  using pxeHandler4_same_message
  by (simp add: ready_state_simps example_heap_simps example_maps_simps message_simps
      options_of_def pxe_discover_simps pxe_discover_answered_def)

end
